theory Spec2Isabelle
  imports Main "HOL-Library.Sublist"
begin

section \<open>Gemini Historical Artifact Description: a model of \<open>app.py\<close>\<close>

text \<open>
  The program is one Python module. At import time it reads the API key, asks the provider
  for its models and selects one (\<open>GOOGLE_API_KEY\<close>, \<open>AVAILABLE_MODELS\<close>,
  \<open>GEMINI_MODEL\<close>); \<open>get_gemini_analysis\<close> tries the models one after the other;
  \<open>main\<close> is the Streamlit page around it.

  Modelling decisions.
  \<^item> A Python \<open>str\<close> is a \<open>string\<close>, each \<open>char\<close> read as one code point in
    U+0000..U+00FF. Code points beyond that range are outside the model.
  \<^item> The module's globals are the fields of the record \<open>config\<close>, passed to the
    functions that read them.
  \<^item> The provider is a parameter. The model listing is the value \<open>listing\<close> (what the
    iterator yielded and whether it then raised). A generation attempt is a function of
    the model name, the payload and the state of the world, and returns an outcome and the
    new world, so that two attempts, also with the same model name, may end differently.
  \<^item> \<open>except Exception\<close> is modelled with outcomes that are either a returned value or a
    raised \<open>Exception\<close> carrying \<open>str(e)\<close>. The Streamlit calls are taken not to raise.
\<close>

subsection \<open>The string operations the module uses\<close>

text \<open>\<open>str.isspace\<close> on one character: the white space of U+0000..U+00FF.\<close>

definition isspace :: "char \<Rightarrow> bool" where
  "isspace c \<longleftrightarrow> c \<in> set [CHR 0x09, CHR 0x0A, CHR 0x0B, CHR 0x0C, CHR 0x0D,
     CHR 0x1C, CHR 0x1D, CHR 0x1E, CHR 0x1F, CHR 0x20, CHR 0x85, CHR 0xA0]"

text \<open>\<open>s.strip()\<close>: white space removed at both ends.\<close>

definition strip :: "string \<Rightarrow> string" where
  "strip s = rev (dropWhile isspace (rev (dropWhile isspace s)))"

text \<open>
  \<open>s.lower()\<close>: in U+0000..U+00FF the upper-case letters are A..Z, U+00C0..U+00D6 and
  U+00D8..U+00DE, each 32 below its lower-case letter; every other character is kept.
\<close>

definition lower_char :: "char \<Rightarrow> char" where
  "lower_char c =
     (let n = (of_char c :: nat)
      in if (65 \<le> n \<and> n \<le> 90) \<or> (192 \<le> n \<and> n \<le> 214) \<or> (216 \<le> n \<and> n \<le> 222)
         then char_of (n + 32) else c)"

definition lower :: "string \<Rightarrow> string" where
  "lower s = map lower_char s"

text \<open>\<open>needle in s\<close> on strings: \<open>needle\<close> occurs in \<open>s\<close> as a contiguous run.\<close>

fun py_in :: "string \<Rightarrow> string \<Rightarrow> bool" where
  "py_in needle [] \<longleftrightarrow> needle = []"
| "py_in needle (c # cs) \<longleftrightarrow> prefix needle (c # cs) \<or> py_in needle cs"

text \<open>\<open>s.split(sep)\<close> for a separator of one character; the result is never empty.\<close>

fun py_split :: "char \<Rightarrow> string \<Rightarrow> string list" where
  "py_split sep [] = [[]]"
| "py_split sep (c # cs) =
     (if c = sep then [] # py_split sep cs
      else (case py_split sep cs of
              [] \<Rightarrow> [[c]]
            | w # ws \<Rightarrow> (c # w) # ws))"

text \<open>\<open>x or ""\<close> for an optional string: \<open>None\<close> and \<open>""\<close> both give \<open>""\<close>.\<close>

definition or_empty :: "string option \<Rightarrow> string" where
  "or_empty x = (case x of None \<Rightarrow> [] | Some s \<Rightarrow> s)"

text \<open>The truth value of an optional string: \<open>None\<close> and \<open>""\<close> are false.\<close>

definition truthy :: "string option \<Rightarrow> bool" where
  "truthy x \<longleftrightarrow> (case x of None \<Rightarrow> False | Some s \<Rightarrow> s \<noteq> [])"

subsection \<open>Configuration (lines 23 to 55)\<close>

text \<open>
  What the provider's listing gives for one model: its \<open>name\<close>, and its
  \<open>supported_generation_methods\<close> when it has that attribute.
\<close>

record model_info =
  name :: string
  supported_generation_methods :: "string list option"

text \<open>
  The run of \<open>genai.list_models()\<close>: the models it yielded, and whether the iteration then
  ended (\<open>Completed\<close>) or raised an \<open>Exception\<close> (\<open>Failed\<close>).
\<close>

datatype listing = Completed "model_info list" | Failed "model_info list"

record config =
  GOOGLE_API_KEY :: "string option"
  GEMINI_MODEL :: string
  AVAILABLE_MODELS :: "string list"

text \<open>The list literal of lines 43 and 91.\<close>

definition fallback_models :: "string list" where
  "fallback_models = [''gemini-2.5-flash'', ''gemini-2.0-flash'', ''gemini-2.5-pro'']"

text \<open>The body of the \<open>for\<close> loop of lines 35 to 40, \<open>acc\<close> being \<open>AVAILABLE_MODELS\<close>.\<close>

fun collect_models :: "model_info list \<Rightarrow> string list \<Rightarrow> string list" where
  "collect_models [] acc = acc"
| "collect_models (m # ms) acc =
     (let model_name = last (py_split (CHR ''/'') (name m))
      in case supported_generation_methods m of
           None \<Rightarrow> collect_models ms acc
         | Some methods \<Rightarrow>
             if ''generateContent'' \<in> set methods
             then collect_models ms (acc @ [model_name])
             else collect_models ms acc)"

text \<open>Lines 33 to 43: the \<open>try\<close> around the loop, and the list assigned in its handler.\<close>

definition resolve_catalog :: "listing \<Rightarrow> string list" where
  "resolve_catalog l =
     (case l of
        Completed ms \<Rightarrow> collect_models ms []
      | Failed ms \<Rightarrow> fallback_models)"

text \<open>Lines 46 to 55: the \<open>if\<close>/\<open>elif\<close> chain that assigns \<open>GEMINI_MODEL\<close>.\<close>

definition select_model :: "string list \<Rightarrow> string" where
  "select_model available =
     (if ''gemini-2.5-flash'' \<in> set available then ''gemini-2.5-flash''
      else if ''gemini-2.0-flash'' \<in> set available then ''gemini-2.0-flash''
      else if ''gemini-2.5-pro'' \<in> set available then ''gemini-2.5-pro''
      else if available \<noteq> [] then hd available
      else ''gemini-2.5-flash'')"

text \<open>Lines 24 to 55 as a whole: the globals after the module is loaded.\<close>

definition configure :: "string option \<Rightarrow> listing \<Rightarrow> config" where
  "configure key l =
     (if \<not> truthy key
      then \<lparr>GOOGLE_API_KEY = key, GEMINI_MODEL = ''gemini-2.5-flash'', AVAILABLE_MODELS = []\<rparr>
      else let available = resolve_catalog l
           in \<lparr>GOOGLE_API_KEY = key, GEMINI_MODEL = select_model available,
               AVAILABLE_MODELS = available\<rparr>)"

text \<open>
  The preference of the specification, in its words: the first of the three named
  identifiers that the catalog holds, else the catalog's first entry, else the default.
\<close>

definition select_by_preference :: "string list \<Rightarrow> string" where
  "select_by_preference available =
     (case find (\<lambda>p. p \<in> set available) fallback_models of
        Some p \<Rightarrow> p
      | None \<Rightarrow> (case available of [] \<Rightarrow> ''gemini-2.5-flash'' | m # _ \<Rightarrow> m))"

subsection \<open>The prompt (lines 62 to 80)\<close>

definition ARTIFACT_ANALYSIS_PROMPT :: string where
  "ARTIFACT_ANALYSIS_PROMPT = concat (map (\<lambda>l. l @ [CHR 0x0A])
     ['''',
      ''You are an expert archaeologist and historian specializing in artifact analysis.'',
      '''',
      ''Analyze the provided image of a historical artifact and generate a comprehensive professional report.'',
      '''',
      ''Please include:'',
      ''1. **Artifact Type & Classification** - What category does this artifact belong to?'',
      ''2. **Estimated Period/Era** - When was this likely created? (with confidence level)'',
      ''3. **Materials & Composition** - What materials are visible and their significance?'',
      ''4. **Dimensions & Scale** - Approximate size and proportions'',
      ''5. **Craftsmanship & Technique** - How was this made? What skills were required?'',
      ''6. **Condition Assessment** - Current state of preservation, visible wear, damage'',
      ''7. **Cultural & Historical Significance** - Why is this important?'',
      ''8. **Possible Origin & Geographic Location** - Where might this have come from?'',
      ''9. **Similar Artifacts** - Known comparative examples'',
      ''10. **Recommendations for Further Study** - What tests or analysis would help?'',
      '''',
      ''Format in clear, structured markdown. Add brief disclaimers about visual-only analysis limitations.''])"

subsection \<open>The analysis invoker (lines 87 to 115)\<close>

text \<open>One element of the list handed to \<open>generate_content\<close>: a string or the image.\<close>

datatype 'img part = Text string | Picture 'img

text \<open>
  How one pass through the \<open>try\<close> body ends: \<open>response.text\<close> is returned, or an
  \<open>Exception\<close> \<open>e\<close> is raised, of which \<open>str(e)\<close> is kept.
\<close>

datatype outcome = Returned string | Raised string

type_synonym ('img, 'w) genai = "string \<Rightarrow> 'img part list \<Rightarrow> 'w \<Rightarrow> outcome \<times> 'w"

text \<open>Line 91.\<close>

definition models_to_try :: "string list \<Rightarrow> string list" where
  "models_to_try available = (if available \<noteq> [] then available else fallback_models)"

text \<open>Lines 99 to 104: the list \<open>content\<close>.\<close>

definition content :: "string \<Rightarrow> 'img \<Rightarrow> 'img part list" where
  "content user_notes pil_image =
     [Text ARTIFACT_ANALYSIS_PROMPT]
     @ (if strip user_notes \<noteq> []
        then [Text ([CHR 0x0A] @ ''Additional Context from User: '' @ user_notes @ [CHR 0x0A])]
        else [])
     @ [Picture pil_image]"

text \<open>\<open>str(last_error)\<close>: \<open>last_error\<close> is \<open>None\<close> until a model has failed.\<close>

definition str_error :: "string option \<Rightarrow> string" where
  "str_error last_error = (case last_error of None \<Rightarrow> ''None'' | Some e \<Rightarrow> e)"

text \<open>
  The \<open>for\<close> loop of lines 95 to 111 with what follows it (lines 114 and 115). The
  result is \<open>Inr\<close> the returned text, or \<open>Inl\<close> the message of the raised exception.
\<close>

fun try_models ::
  "('img, 'w) genai \<Rightarrow> 'img part list \<Rightarrow> string list \<Rightarrow> string option \<Rightarrow> 'w
     \<Rightarrow> (string + string) \<times> 'w" where
  "try_models generate c [] last_error w =
     (Inl (''Failed to analyze: '' @ str_error last_error), w)"
| "try_models generate c (model_name # rest) last_error w =
     (case generate model_name c w of
        (Returned text, w') \<Rightarrow> (Inr text, w')
      | (Raised e, w') \<Rightarrow> try_models generate c rest (Some e) w')"

definition get_gemini_analysis ::
  "('img, 'w) genai \<Rightarrow> string list \<Rightarrow> string \<Rightarrow> 'img \<Rightarrow> 'w \<Rightarrow> (string + string) \<times> 'w" where
  "get_gemini_analysis generate available user_notes pil_image w =
     try_models generate (content user_notes pil_image) (models_to_try available) None w"

subsection \<open>The page (lines 122 to 439)\<close>

text \<open>
  The four branches of the troubleshooting text (lines 381 to 439), in the order of the
  \<open>if\<close>/\<open>elif\<close> chain.
\<close>

datatype guidance = NoCompatibleModels | AuthenticationError | RateLimitExceeded | ErrorDetails

text \<open>
  What the page shows, one constructor per kind of Streamlit call. \<open>canned g\<close> is the
  fixed text of branch \<open>g\<close> (lines 382 to 394, 402 to 412 and 414 to 423);
  \<open>error_details\<close> is the text of lines 425 to 439 around \<open>error_str\<close>; \<open>report\<close> is
  the expander of lines 358 to 372, the result with its download button;
  \<open>models_expander\<close> is the expander of lines 255 to 257.
\<close>

datatype widget =
    st_success string
  | st_error string
  | st_warning string
  | st_info string
  | st_markdown string
  | st_image
  | models_expander "string list"
  | report string
  | canned guidance
  | error_details string

text \<open>The conditions of lines 379, 381, 401, 413 and 424.\<close>

definition classify :: "string \<Rightarrow> guidance" where
  "classify error_str =
     (let error_msg = lower error_str
      in if py_in ''not found'' error_msg \<or> py_in ''not supported'' error_msg
         then NoCompatibleModels
         else if py_in ''401'' error_msg \<or> py_in ''permission'' error_msg
                 \<or> py_in ''unauthorized'' error_msg \<or> py_in ''invalid'' error_msg
         then AuthenticationError
         else if py_in ''rate limit'' error_msg
         then RateLimitExceeded
         else ErrorDetails)"

text \<open>Lines 381 to 439: what each branch shows.\<close>

definition troubleshooting :: "string list \<Rightarrow> string \<Rightarrow> widget list" where
  "troubleshooting available error_str =
     (case classify error_str of
        NoCompatibleModels \<Rightarrow>
          canned NoCompatibleModels
          # (if available \<noteq> [] then map (\<lambda>m. st_info ('' '' @ m)) available
             else [st_warning ''Could not detect any compatible models with your API key''])
      | AuthenticationError \<Rightarrow> [canned AuthenticationError]
      | RateLimitExceeded \<Rightarrow> [canned RateLimitExceeded]
      | ErrorDetails \<Rightarrow> [error_details error_str])"

text \<open>Lines 250 to 261: the sidebar's configuration block.\<close>

definition sidebar :: "config \<Rightarrow> widget list" where
  "sidebar cfg =
     (if truthy (GOOGLE_API_KEY cfg)
      then [st_success ''API Key Configured'',
            st_markdown (''**Selected Model:** '' @ [CHR 0x60] @ GEMINI_MODEL cfg @ [CHR 0x60])]
           @ (if AVAILABLE_MODELS cfg \<noteq> [] then [models_expander (AVAILABLE_MODELS cfg)]
              else [st_warning '' Could not detect available models''])
      else [st_error ''API Key Missing - Please add GOOGLE_API_KEY to .env''])"

text \<open>Line 299: the \<open>disabled\<close> argument of the analyze button.\<close>

definition analyze_disabled :: "'file option \<Rightarrow> config \<Rightarrow> bool" where
  "analyze_disabled uploaded_file cfg \<longleftrightarrow> uploaded_file = None \<or> \<not> truthy (GOOGLE_API_KEY cfg)"

text \<open>
  Lines 319 to 339: the preview panel and \<open>pil_image\<close>. \<open>decode\<close> stands for
  \<open>Image.open(uploaded_file).convert("RGB")\<close> with the display of the image: \<open>Inr\<close>
  the image, or \<open>Inl\<close> the message of the exception caught at line 334.
\<close>

definition preview_panel :: "('file \<Rightarrow> string + 'img) \<Rightarrow> 'file option \<Rightarrow> widget list \<times> 'img option" where
  "preview_panel decode uploaded_file =
     (case uploaded_file of
        None \<Rightarrow> ([st_info '' Upload an artifact image to get started''], None)
      | Some f \<Rightarrow>
          (case decode f of
             Inr img \<Rightarrow> ([st_image], Some img)
           | Inl e \<Rightarrow> ([st_error ('' Could not load image: '' @ e)], None)))"

text \<open>
  Lines 345 to 439: the results section. \<open>analyze_button\<close> is what \<open>st.button\<close>
  returned.
\<close>

definition results_section ::
  "('img, 'w) genai \<Rightarrow> config \<Rightarrow> bool \<Rightarrow> 'img option \<Rightarrow> string option \<Rightarrow> 'w
     \<Rightarrow> widget list \<times> 'w" where
  "results_section generate cfg analyze_button pil_image user_notes w =
     (if analyze_button then
        (case pil_image of
           None \<Rightarrow> ([st_error '' Please upload a valid image.''], w)
         | Some img \<Rightarrow>
             if \<not> truthy (GOOGLE_API_KEY cfg)
             then ([st_error '' GOOGLE_API_KEY not configured. Add it to your .env file.''], w)
             else (case get_gemini_analysis generate (AVAILABLE_MODELS cfg)
                          (or_empty user_notes) img w of
                     (Inr result, w') \<Rightarrow>
                       ([st_success '' Analysis Complete!'', report result], w')
                   | (Inl error_str, w') \<Rightarrow>
                       ([st_error ('' Analysis failed: '' @ error_str),
                         st_markdown ''#### Troubleshooting:'']
                        @ troubleshooting (AVAILABLE_MODELS cfg) error_str, w')))
      else ([], w))"

text \<open>What one run of \<open>main\<close> leaves on the page, and the world after it.\<close>

record 'w page =
  in_sidebar :: "widget list"
  button_disabled :: bool
  in_preview :: "widget list"
  in_results :: "widget list"
  world :: 'w

definition main ::
  "('img, 'w) genai \<Rightarrow> ('file \<Rightarrow> string + 'img) \<Rightarrow> config \<Rightarrow> 'file option \<Rightarrow> string option
     \<Rightarrow> bool \<Rightarrow> 'w \<Rightarrow> 'w page" where
  "main generate decode cfg uploaded_file user_notes analyze_button w =
     (let (shown, pil_image) = preview_panel decode uploaded_file;
          (results, w') = results_section generate cfg analyze_button pil_image user_notes w
      in \<lparr>in_sidebar = sidebar cfg,
          button_disabled = analyze_disabled uploaded_file cfg,
          in_preview = shown,
          in_results = results,
          world = w'\<rparr>)"

subsection \<open>A provider that records its calls\<close>

text \<open>
  \<open>recording generate\<close> behaves as \<open>generate\<close> and appends the name of the model
  to a log kept beside the world, once per call. The log of a run is thus the sequence of
  generation attempts the run made.
\<close>

definition recording :: "('img, 'w) genai \<Rightarrow> ('img, 'w \<times> string list) genai" where
  "recording generate model_name c = (\<lambda>(w, log).
     case generate model_name c w of (out, w') \<Rightarrow> (out, (w', log @ [model_name])))"

text \<open>
  \<open>all_raise generate c models w\<close>: the attempts on \<open>models\<close>, made in order from the
  world \<open>w\<close>, all raise; the value holds their messages, in order, and the world after
  the last. \<open>None\<close> when one of the attempts returns.
\<close>

fun all_raise ::
  "('img, 'w) genai \<Rightarrow> 'img part list \<Rightarrow> string list \<Rightarrow> 'w \<Rightarrow> (string list \<times> 'w) option" where
  "all_raise generate c [] w = Some ([], w)"
| "all_raise generate c (model_name # rest) w =
     (case generate model_name c w of
        (Returned text, w') \<Rightarrow> None
      | (Raised e, w') \<Rightarrow>
          (case all_raise generate c rest w' of
             None \<Rightarrow> None
           | Some (es, w'') \<Rightarrow> Some (e # es, w'')))"

text \<open>
  Two providers for concrete runs, with no state of their own. \<open>mock ok\<close> returns the
  text \<open>report of m\<close> for the models \<open>m\<close> in \<open>ok\<close> and raises \<open>m is not found\<close>
  for the others.
\<close>

definition mock :: "string list \<Rightarrow> ('img, unit) genai" where
  "mock ok model_name c w =
     (if model_name \<in> set ok then (Returned (''report of '' @ model_name), w)
      else (Raised (model_name @ '' is not found''), w))"

text \<open>\<open>failing msg\<close> raises \<open>msg m\<close> for every model \<open>m\<close>.\<close>

definition failing :: "(string \<Rightarrow> string) \<Rightarrow> ('img, unit) genai" where
  "failing msg model_name c w = (Raised (msg model_name), w)"

section \<open>Properties\<close>

subsection \<open>The loop over the models\<close>

lemma try_models_after_raises:
  "all_raise generate c pre w = Some (es, w1) \<Longrightarrow>
   try_models generate c (pre @ rest) last_error w =
   try_models generate c rest (if es = [] then last_error else Some (last es)) w1"
proof (induction pre arbitrary: last_error w es)
  case Nil
  then show ?case by simp
next
  case (Cons m pre)
  obtain out w' where g: "generate m c w = (out, w')"
    by (cases "generate m c w")
  show ?case
  proof (cases out)
    case (Returned t)
    with Cons.prems g show ?thesis by simp
  next
    case (Raised e)
    with Cons.prems g obtain es' where r: "all_raise generate c pre w' = Some (es', w1)"
      and es: "es = e # es'"
      by (auto split: option.splits)
    from Cons.IH [OF r, of "Some e"] g Raised es show ?thesis
      by simp
  qed
qed

lemma all_raise_length:
  "all_raise generate c ms w = Some (es, w1) \<Longrightarrow> length es = length ms"
  by (induction ms arbitrary: w es)
     (auto split: prod.splits outcome.splits option.splits)

lemma all_raise_recording:
  "all_raise (recording generate) c ms (w, log) =
     (case all_raise generate c ms w of
        None \<Rightarrow> None
      | Some (es, w1) \<Rightarrow> Some (es, (w1, log @ ms)))"
  by (induction ms arbitrary: w log)
     (auto simp: recording_def split: prod.splits outcome.splits option.splits)

lemma try_models_recording:
  "\<exists>n. n \<le> length ms \<and> (ms \<noteq> [] \<longrightarrow> 0 < n) \<and>
     try_models (recording generate) c ms last_error (w, log) =
       (fst (try_models generate c ms last_error w),
        snd (try_models generate c ms last_error w), log @ take n ms)"
proof (induction ms arbitrary: last_error w log)
  case Nil
  show ?case by simp
next
  case (Cons m ms)
  obtain out w' where g: "generate m c w = (out, w')"
    by (cases "generate m c w")
  show ?case
  proof (cases out)
    case (Returned t)
    with g have "try_models (recording generate) c (m # ms) last_error (w, log) =
       (fst (try_models generate c (m # ms) last_error w),
        snd (try_models generate c (m # ms) last_error w), log @ take 1 (m # ms))"
      by (simp add: recording_def)
    then show ?thesis by (intro exI [of _ 1]) simp
  next
    case (Raised e)
    from Cons.IH [of "Some e" w' "log @ [m]"] obtain n where n: "n \<le> length ms"
      and run: "try_models (recording generate) c ms (Some e) (w', log @ [m]) =
       (fst (try_models generate c ms (Some e) w'),
        snd (try_models generate c ms (Some e) w'), (log @ [m]) @ take n ms)"
      by blast
    from g Raised run
    have "try_models (recording generate) c (m # ms) last_error (w, log) =
       (fst (try_models generate c (m # ms) last_error w),
        snd (try_models generate c (m # ms) last_error w), log @ take (Suc n) (m # ms))"
      by (simp add: recording_def)
    with n show ?thesis by (intro exI [of _ "Suc n"]) simp
  qed
qed

lemma count_list_take: "count_list (take n xs) x \<le> count_list xs x"
proof -
  have "count_list xs x = count_list (take n xs) x + count_list (drop n xs) x"
    by (metis append_take_drop_id count_list_append)
  then show ?thesis by simp
qed

lemma models_to_try_nonempty: "models_to_try available \<noteq> []"
  by (simp add: models_to_try_def fallback_models_def)

text \<open>
  Claim C1. The invoker returns the text of the first model whose attempt succeeds, and
  attempts no model after it: when the models before \<open>m\<close> all raise and the attempt on
  \<open>m\<close> returns \<open>text\<close>, the result is \<open>text\<close>, the world is the one that attempt
  left, and the attempts made are exactly those models followed by \<open>m\<close>. In every run,
  a name is attempted at most as often as it stands in the list.
\<close>

theorem first_success_short_circuit:
  "(\<forall>x. count_list (snd (snd (get_gemini_analysis (recording generate) available user_notes
            pil_image (w, [])))) x \<le> count_list (models_to_try available) x)
   \<and> (models_to_try available = pre @ m # post
        \<and> all_raise generate (content user_notes pil_image) pre w = Some (es, w1)
        \<and> generate m (content user_notes pil_image) w1 = (Returned text, w2)
      \<longrightarrow> get_gemini_analysis generate available user_notes pil_image w = (Inr text, w2)
        \<and> get_gemini_analysis (recording generate) available user_notes pil_image (w, [])
            = (Inr text, (w2, pre @ [m])))"
proof (intro conjI allI impI)
  fix x
  obtain n where
    "try_models (recording generate) (content user_notes pil_image) (models_to_try available)
       None (w, []) =
     (fst (try_models generate (content user_notes pil_image) (models_to_try available) None w),
      snd (try_models generate (content user_notes pil_image) (models_to_try available) None w),
      [] @ take n (models_to_try available))"
    using try_models_recording [of "models_to_try available" generate
        "content user_notes pil_image" None w "[]"] by blast
  then show "count_list (snd (snd (get_gemini_analysis (recording generate) available user_notes
            pil_image (w, [])))) x \<le> count_list (models_to_try available) x"
    by (simp add: get_gemini_analysis_def count_list_take)
next
  assume h: "models_to_try available = pre @ m # post
        \<and> all_raise generate (content user_notes pil_image) pre w = Some (es, w1)
        \<and> generate m (content user_notes pil_image) w1 = (Returned text, w2)"
  then have pre: "all_raise generate (content user_notes pil_image) pre w = Some (es, w1)"
    and m: "generate m (content user_notes pil_image) w1 = (Returned text, w2)"
    and ms: "models_to_try available = pre @ m # post"
    by simp_all
  from try_models_after_raises [OF pre, of "m # post" None] m ms
  show "get_gemini_analysis generate available user_notes pil_image w = (Inr text, w2)"
    by (simp add: get_gemini_analysis_def)
  from pre have pre': "all_raise (recording generate) (content user_notes pil_image) pre (w, [])
      = Some (es, (w1, pre))"
    by (simp add: all_raise_recording)
  have "recording generate m (content user_notes pil_image) (w1, pre)
      = (Returned text, (w2, pre @ [m]))"
    using m by (simp add: recording_def)
  with try_models_after_raises [OF pre', of "m # post" None] ms
  show "get_gemini_analysis (recording generate) available user_notes pil_image (w, [])
            = (Inr text, (w2, pre @ [m]))"
    by (simp add: get_gemini_analysis_def)
qed

text \<open>The first model fails, the second succeeds, the third is never called.\<close>

theorem first_success_short_circuit_witness:
  "get_gemini_analysis (recording (mock [''gemini-2.0-flash'', ''gemini-2.5-pro'']))
     [''gemini-1.0-pro'', ''gemini-2.0-flash'', ''gemini-2.5-pro''] ''bronze age'' () ((), [])
   = (Inr ''report of gemini-2.0-flash'', ((), [''gemini-1.0-pro'', ''gemini-2.0-flash'']))"
  using first_success_short_circuit [of "mock [''gemini-2.0-flash'', ''gemini-2.5-pro'']"
      "[''gemini-1.0-pro'', ''gemini-2.0-flash'', ''gemini-2.5-pro'']" "''bronze age''" "()" "()"
      "[''gemini-1.0-pro'']" "''gemini-2.0-flash''" "[''gemini-2.5-pro'']"
      "[''gemini-1.0-pro is not found'']" "()" "''report of gemini-2.0-flash''" "()"]
  by (simp add: models_to_try_def mock_def)

text \<open>
  Claim C2. When every model of the list raises, the invoker raises one exception whose
  message is \<open>Failed to analyze: \<close> followed by the message of the last model's failure;
  the messages of the earlier failures are in no part of the result, and every model of
  the list has been attempted.
\<close>

theorem all_fail_wraps_last_error:
  "all_raise generate (content user_notes pil_image) (models_to_try available) w = Some (es, w1)
   \<Longrightarrow> es \<noteq> []
     \<and> get_gemini_analysis generate available user_notes pil_image w
         = (Inl (''Failed to analyze: '' @ last es), w1)
     \<and> get_gemini_analysis (recording generate) available user_notes pil_image (w, [])
         = (Inl (''Failed to analyze: '' @ last es), (w1, models_to_try available))"
proof -
  assume h: "all_raise generate (content user_notes pil_image) (models_to_try available) w
     = Some (es, w1)"
  from all_raise_length [OF h] have es: "es \<noteq> []"
    using models_to_try_nonempty [of available] by auto
  from h have h': "all_raise (recording generate) (content user_notes pil_image)
      (models_to_try available) (w, []) = Some (es, (w1, models_to_try available))"
    by (simp add: all_raise_recording)
  from try_models_after_raises [OF h, of "[]" None] es
  have a: "get_gemini_analysis generate available user_notes pil_image w
         = (Inl (''Failed to analyze: '' @ last es), w1)"
    by (simp add: get_gemini_analysis_def str_error_def)
  from try_models_after_raises [OF h', of "[]" None] es
  have b: "get_gemini_analysis (recording generate) available user_notes pil_image (w, [])
         = (Inl (''Failed to analyze: '' @ last es), (w1, models_to_try available))"
    by (simp add: get_gemini_analysis_def str_error_def)
  from es a b show ?thesis by simp
qed

text \<open>Three models fail with three messages; the error carries the third.\<close>

theorem all_fail_wraps_last_error_witness:
  "get_gemini_analysis (failing (\<lambda>m. ''quota exceeded for '' @ m))
     [''m1'', ''m2'', ''m3''] '''' () ()
   = (Inl ''Failed to analyze: quota exceeded for m3'', ())"
  using all_fail_wraps_last_error [of "failing (\<lambda>m. ''quota exceeded for '' @ m)" "''''" "()"
      "[''m1'', ''m2'', ''m3'']" "()"
      "[''quota exceeded for m1'', ''quota exceeded for m2'', ''quota exceeded for m3'']" "()"]
  by (simp add: models_to_try_def failing_def)

subsection \<open>The list of models that is iterated\<close>

text \<open>
  Claim C3. The list the invoker iterates is never empty: it is \<open>AVAILABLE_MODELS\<close>
  when that is not empty, and otherwise the three identifiers of line 91, over which the
  loop then runs.
\<close>

theorem models_to_try_never_empty:
  "models_to_try available \<noteq> []
   \<and> models_to_try available =
       (if available = [] then [''gemini-2.5-flash'', ''gemini-2.0-flash'', ''gemini-2.5-pro'']
        else available)
   \<and> get_gemini_analysis generate [] user_notes pil_image w =
       try_models generate (content user_notes pil_image)
         [''gemini-2.5-flash'', ''gemini-2.0-flash'', ''gemini-2.5-pro''] None w"
  by (simp add: models_to_try_def fallback_models_def get_gemini_analysis_def)

text \<open>With an empty catalog and a provider that always fails, the three are attempted.\<close>

theorem models_to_try_never_empty_witness:
  "models_to_try [] = [''gemini-2.5-flash'', ''gemini-2.0-flash'', ''gemini-2.5-pro'']
   \<and> get_gemini_analysis (recording (failing (\<lambda>m. ''down''))) [] '''' () ((), [])
       = (Inl ''Failed to analyze: down'',
          ((), [''gemini-2.5-flash'', ''gemini-2.0-flash'', ''gemini-2.5-pro'']))"
  using models_to_try_never_empty [of "[]" "recording (failing (\<lambda>m. ''down''))" "''''" "()"
      "((), [])"]
  by (simp add: recording_def failing_def str_error_def)




subsection \<open>The selected model\<close>

text \<open>
  Claim C5 says that a catalog with a pro-tier and a flash-tier identifier selects the
  flash-tier one. The chain of lines 46 to 55 compares whole names, so a flash-tier
  identifier other than the two named ones is not preferred: with \<open>gemini-2.5-pro\<close> and
  \<open>gemini-1.5-flash\<close> the selected model is \<open>gemini-2.5-pro\<close>, and with
  \<open>gemini-1.5-pro\<close> before \<open>gemini-1.5-flash\<close> it is \<open>gemini-1.5-pro\<close>, the first
  entry. Neither selected name contains \<open>flash\<close>.
\<close>

theorem flash_tier_selection_counterexample:
  "py_in ''pro'' ''gemini-2.5-pro'' \<and> py_in ''flash'' ''gemini-1.5-flash''
   \<and> GEMINI_MODEL (configure (Some ''key'') (Completed
       [\<lparr>name = ''models/gemini-2.5-pro'', supported_generation_methods = Some [''generateContent'']\<rparr>,
        \<lparr>name = ''models/gemini-1.5-flash'', supported_generation_methods = Some [''generateContent'']\<rparr>]))
     = ''gemini-2.5-pro''
   \<and> \<not> py_in ''flash'' (select_model [''gemini-2.5-pro'', ''gemini-1.5-flash''])
   \<and> py_in ''pro'' ''gemini-1.5-pro''
   \<and> select_model [''gemini-1.5-pro'', ''gemini-1.5-flash''] = ''gemini-1.5-pro''
   \<and> select_model [''gemini-1.5-flash'', ''gemini-1.5-pro''] = ''gemini-1.5-flash''"
  by (simp add: configure_def truthy_def resolve_catalog_def select_model_def)

text \<open>
  Claim C5, amended. \<open>GEMINI_MODEL\<close> is a function of the catalog: \<open>gemini-2.5-flash\<close>
  when the catalog holds that name, else \<open>gemini-2.0-flash\<close>, else \<open>gemini-2.5-pro\<close>,
  else the catalog's first entry, else \<open>gemini-2.5-flash\<close>; this is the preference of
  the specification over the three named identifiers (\<open>select_by_preference\<close>). A
  catalog with \<open>gemini-2.5-pro\<close> and one of the two named flash identifiers selects a
  named flash identifier of the catalog. A catalog with none of the three names selects its
  first entry, whatever its tier. Without an API key the selected model is
  \<open>gemini-2.5-flash\<close>.
\<close>

theorem select_model_preference:
  "select_model available = select_by_preference available
   \<and> (''gemini-2.5-flash'' \<in> set available \<longrightarrow> select_model available = ''gemini-2.5-flash'')
   \<and> (''gemini-2.5-flash'' \<notin> set available \<and> ''gemini-2.0-flash'' \<in> set available
        \<longrightarrow> select_model available = ''gemini-2.0-flash'')
   \<and> (''gemini-2.5-flash'' \<notin> set available \<and> ''gemini-2.0-flash'' \<notin> set available
        \<and> ''gemini-2.5-pro'' \<in> set available
        \<longrightarrow> select_model available = ''gemini-2.5-pro'')
   \<and> (''gemini-2.5-flash'' \<notin> set available \<and> ''gemini-2.0-flash'' \<notin> set available
        \<and> ''gemini-2.5-pro'' \<notin> set available \<and> available \<noteq> []
        \<longrightarrow> select_model available = hd available)
   \<and> (available = [] \<longrightarrow> select_model available = ''gemini-2.5-flash'')
   \<and> (''gemini-2.5-pro'' \<in> set available
        \<and> (''gemini-2.5-flash'' \<in> set available \<or> ''gemini-2.0-flash'' \<in> set available)
        \<longrightarrow> select_model available \<in> {''gemini-2.5-flash'', ''gemini-2.0-flash''}
          \<and> select_model available \<in> set available)
   \<and> GEMINI_MODEL (configure key l) =
       (if truthy key then select_model (resolve_catalog l) else ''gemini-2.5-flash'')"
proof -
  have "select_model available = select_by_preference available"
    by (cases available)
       (simp_all add: select_model_def select_by_preference_def fallback_models_def)
  moreover have "GEMINI_MODEL (configure key l) =
       (if truthy key then select_model (resolve_catalog l) else ''gemini-2.5-flash'')"
    by (simp add: configure_def Let_def)
  moreover have "''gemini-2.5-flash'' \<in> set available
      \<longrightarrow> select_model available = ''gemini-2.5-flash''"
    by (simp add: select_model_def)
  moreover have "''gemini-2.5-flash'' \<notin> set available \<and> ''gemini-2.0-flash'' \<in> set available
        \<longrightarrow> select_model available = ''gemini-2.0-flash''"
    by (simp add: select_model_def)
  moreover have "''gemini-2.5-flash'' \<notin> set available \<and> ''gemini-2.0-flash'' \<notin> set available
        \<and> ''gemini-2.5-pro'' \<in> set available
        \<longrightarrow> select_model available = ''gemini-2.5-pro''"
    by (simp add: select_model_def)
  moreover have "''gemini-2.5-flash'' \<notin> set available \<and> ''gemini-2.0-flash'' \<notin> set available
        \<and> ''gemini-2.5-pro'' \<notin> set available \<and> available \<noteq> []
        \<longrightarrow> select_model available = hd available"
    by (simp add: select_model_def)
  moreover have "available = [] \<longrightarrow> select_model available = ''gemini-2.5-flash''"
    by (simp add: select_model_def)
  moreover have "''gemini-2.5-pro'' \<in> set available
        \<and> (''gemini-2.5-flash'' \<in> set available \<or> ''gemini-2.0-flash'' \<in> set available)
        \<longrightarrow> select_model available \<in> {''gemini-2.5-flash'', ''gemini-2.0-flash''}
          \<and> select_model available \<in> set available"
    by (simp add: select_model_def)
  ultimately show ?thesis
    by blast
qed

text \<open>Four catalogs, one for each of four branches.\<close>

theorem select_model_preference_witness:
  "select_model [''gemini-1.5-pro'', ''gemini-2.5-pro'', ''gemini-2.0-flash''] = ''gemini-2.0-flash''
   \<and> select_model [''gemini-2.5-pro'', ''gemini-2.0-flash'', ''gemini-2.5-flash''] = ''gemini-2.5-flash''
   \<and> select_model [''gemini-1.5-pro'', ''gemini-1.5-flash''] = ''gemini-1.5-pro''
   \<and> select_model [] = ''gemini-2.5-flash''"
  using select_model_preference [of "[''gemini-1.5-pro'', ''gemini-2.5-pro'', ''gemini-2.0-flash'']"
      None "Completed []", THEN conjunct2]
    select_model_preference [of "[''gemini-2.5-pro'', ''gemini-2.0-flash'', ''gemini-2.5-flash'']"
      None "Completed []", THEN conjunct2]
    select_model_preference [of "[''gemini-1.5-pro'', ''gemini-1.5-flash'']" None "Completed []",
      THEN conjunct2]
    select_model_preference [of "[]" None "Completed []", THEN conjunct2]
  by simp

subsection \<open>The payload\<close>

text \<open>\<open>s.strip()\<close> is empty exactly when \<open>s\<close> holds white space only.\<close>

lemma strip_empty_iff: "strip s = [] \<longleftrightarrow> (\<forall>c\<in>set s. isspace c)"
proof -
  have outer: "strip s = [] \<longleftrightarrow> (\<forall>c\<in>set (dropWhile isspace s). isspace c)"
    by (simp add: strip_def)
  show ?thesis
  proof
    assume "strip s = []"
    with outer have rest: "\<forall>c\<in>set (dropWhile isspace s). isspace c"
      by simp
    have "dropWhile isspace s = []"
    proof (rule ccontr)
      assume ne: "dropWhile isspace s \<noteq> []"
      then have "\<not> isspace (hd (dropWhile isspace s))"
        by (rule hd_dropWhile)
      moreover from ne have "hd (dropWhile isspace s) \<in> set (dropWhile isspace s)"
        by simp
      ultimately show False
        using rest by blast
    qed
    then show "\<forall>c\<in>set s. isspace c"
      by simp
  next
    assume "\<forall>c\<in>set s. isspace c"
    then have "\<forall>c\<in>set (dropWhile isspace s). isspace c"
      by (blast dest: set_dropWhileD)
    with outer show "strip s = []"
      by simp
  qed
qed

text \<open>
  Claim C6. The payload starts with the instruction template and ends with the image.
  When the note holds a character that is not white space, the labelled context segment
  with the note as given, not stripped, stands between them and the payload has three
  parts; otherwise the payload has two parts. This payload is what every attempt receives.
\<close>

theorem content_parts:
  "content user_notes pil_image =
     (if \<forall>c\<in>set user_notes. isspace c
      then [Text ARTIFACT_ANALYSIS_PROMPT, Picture pil_image]
      else [Text ARTIFACT_ANALYSIS_PROMPT,
            Text (CHR 0x0A # ''Additional Context from User: '' @ user_notes @ [CHR 0x0A]),
            Picture pil_image])
   \<and> (strip user_notes = [] \<longleftrightarrow> (\<forall>c\<in>set user_notes. isspace c))
   \<and> length (content user_notes pil_image) = (if strip user_notes = [] then 2 else 3)
   \<and> hd (content user_notes pil_image) = Text ARTIFACT_ANALYSIS_PROMPT
   \<and> last (content user_notes pil_image) = Picture pil_image
   \<and> get_gemini_analysis generate available user_notes pil_image w =
       try_models generate (content user_notes pil_image) (models_to_try available) None w"
  using strip_empty_iff [of user_notes]
  by (simp add: content_def get_gemini_analysis_def)

text \<open>A note with spaces around it, a note of white space only, and the empty note.\<close>

theorem content_parts_witness:
  "content ''  found near Knossos '' () =
     [Text ARTIFACT_ANALYSIS_PROMPT,
      Text (CHR 0x0A # ''Additional Context from User:   found near Knossos '' @ [CHR 0x0A]),
      Picture ()]
   \<and> content [CHR '' '', CHR 0x09, CHR 0x0A] () = [Text ARTIFACT_ANALYSIS_PROMPT, Picture ()]
   \<and> content '''' () = [Text ARTIFACT_ANALYSIS_PROMPT, Picture ()]"
  using content_parts [of "''  found near Knossos ''" "()" "mock []" "[]" "()"]
    content_parts [of "[CHR '' '', CHR 0x09, CHR 0x0A]" "()" "mock []" "[]" "()"]
    content_parts [of "''''" "()" "mock []" "[]" "()"]
  by (simp add: isspace_def)

subsection \<open>Catalog resolution\<close>

text \<open>The loop collects, in the listing's order, the names of the models that generate.\<close>

lemma collect_models_eq:
  "collect_models ms acc =
     acc @ map (\<lambda>m. last (py_split (CHR ''/'') (name m)))
       (filter (\<lambda>m. case supported_generation_methods m of
                       None \<Rightarrow> False
                     | Some methods \<Rightarrow> ''generateContent'' \<in> set methods) ms)"
  by (induction ms arbitrary: acc) (auto simp: Let_def split: option.splits)

text \<open>
  Claim C7 says that catalog resolution never gives an empty list. It does when the
  listing query succeeds and no listed model supports \<open>generateContent\<close>.
\<close>

theorem catalog_resolution_empty_counterexample:
  "AVAILABLE_MODELS (configure (Some ''key'') (Completed
     [\<lparr>name = ''models/embedding-001'', supported_generation_methods = Some [''embedContent'']\<rparr>]))
   = []"
  by (simp add: configure_def truthy_def resolve_catalog_def)

text \<open>
  Claim C7, amended. When the listing query raises, the catalog is the fixed list of three
  identifiers, which is not empty and holds \<open>gemini-2.5-flash\<close>; no exception leaves
  the resolution. When the query succeeds, the catalog holds the last path segment of the
  name of every listed model that supports \<open>generateContent\<close>, in the listing's order,
  and may be empty; without an API key it is empty. The list the invoker then iterates is
  never empty.
\<close>

theorem catalog_resolution_fallback:
  "resolve_catalog (Failed ms) = [''gemini-2.5-flash'', ''gemini-2.0-flash'', ''gemini-2.5-pro'']
   \<and> resolve_catalog (Failed ms) \<noteq> []
   \<and> ''gemini-2.5-flash'' \<in> set (resolve_catalog (Failed ms))
   \<and> resolve_catalog (Completed ms) =
       map (\<lambda>m. last (py_split (CHR ''/'') (name m)))
         (filter (\<lambda>m. case supported_generation_methods m of
                         None \<Rightarrow> False
                       | Some methods \<Rightarrow> ''generateContent'' \<in> set methods) ms)
   \<and> AVAILABLE_MODELS (configure key l) = (if truthy key then resolve_catalog l else [])
   \<and> models_to_try (AVAILABLE_MODELS (configure key l)) \<noteq> []"
  by (simp add: resolve_catalog_def fallback_models_def collect_models_eq configure_def Let_def
      models_to_try_nonempty)

text \<open>One listing, once raising after its first model and once completed.\<close>

theorem catalog_resolution_fallback_witness:
  "resolve_catalog (Failed
     [\<lparr>name = ''models/gemini-1.0-pro'', supported_generation_methods = Some [''generateContent'']\<rparr>])
     = [''gemini-2.5-flash'', ''gemini-2.0-flash'', ''gemini-2.5-pro'']
   \<and> resolve_catalog (Completed
     [\<lparr>name = ''models/gemini-1.0-pro'', supported_generation_methods = Some [''generateContent'']\<rparr>])
     = [''gemini-1.0-pro'']"
  using catalog_resolution_fallback [of
      "[\<lparr>name = ''models/gemini-1.0-pro'', supported_generation_methods = Some [''generateContent'']\<rparr>]"
      None "Completed []"]
  by simp

subsection \<open>The page without an API key\<close>

text \<open>
  Claim C8. When \<open>GOOGLE_API_KEY\<close> is absent or empty, the analyze button is disabled,
  the sidebar shows the configuration error, and whatever \<open>st.button\<close> returned the
  results section shows at most one error message and leaves the world as it was: the
  invoker, which alone calls the provider, is not reached. Every such run of \<open>main\<close>
  ends with a page.
\<close>

theorem missing_key_blocks_analysis:
  "\<not> truthy (GOOGLE_API_KEY cfg) \<Longrightarrow>
   button_disabled (main generate decode cfg uploaded_file user_notes analyze_button w)
   \<and> in_sidebar (main generate decode cfg uploaded_file user_notes analyze_button w)
       = [st_error ''API Key Missing - Please add GOOGLE_API_KEY to .env'']
   \<and> world (main generate decode cfg uploaded_file user_notes analyze_button w) = w
   \<and> in_results (main generate decode cfg uploaded_file user_notes analyze_button w)
       = (if analyze_button
          then (case snd (preview_panel decode uploaded_file) of
                  None \<Rightarrow> [st_error '' Please upload a valid image.'']
                | Some img \<Rightarrow>
                    [st_error '' GOOGLE_API_KEY not configured. Add it to your .env file.''])
          else [])"
  by (simp add: main_def results_section_def sidebar_def analyze_disabled_def
      split: prod.splits option.splits)

text \<open>
  No key, an image uploaded, and the button reported as pressed: the recording provider's
  log stays empty.
\<close>

theorem missing_key_blocks_analysis_witness:
  "world (main (recording (mock [''gemini-2.5-flash''])) (\<lambda>f. Inr f)
      (configure None (Completed [])) (Some ()) (Some ''a vase'') True ((), [])) = ((), [])
   \<and> in_results (main (recording (mock [''gemini-2.5-flash''])) (\<lambda>f. Inr f)
      (configure None (Completed [])) (Some ()) (Some ''a vase'') True ((), []))
      = [st_error '' GOOGLE_API_KEY not configured. Add it to your .env file.'']
   \<and> button_disabled (main (recording (mock [''gemini-2.5-flash''])) (\<lambda>f. Inr f)
      (configure None (Completed [])) (Some ()) (Some ''a vase'') True ((), []))"
  using missing_key_blocks_analysis [of "configure None (Completed [])"
      "recording (mock [''gemini-2.5-flash''])" "\<lambda>f. Inr f" "Some ()" "Some ''a vase''" True
      "((), [])"]
  by (simp add: configure_def truthy_def preview_panel_def)

subsection \<open>Troubleshooting guidance\<close>

text \<open>\<open>py_in\<close> is the substring relation.\<close>

lemma py_in_iff: "py_in needle s \<longleftrightarrow> (\<exists>pre post. s = pre @ needle @ post)"
proof -
  have "py_in needle s \<longleftrightarrow> sublist needle s"
    by (induction s) (auto simp: sublist_Cons_right)
  then show ?thesis
    by (simp add: sublist_def)
qed

text \<open>A needle that \<open>lower\<close> leaves alone is still found after \<open>lower\<close>.\<close>

lemma py_in_lower:
  assumes "py_in needle s" and "lower needle = needle"
  shows "py_in needle (lower s)"
proof -
  from assms(1) obtain pre post where "s = pre @ needle @ post"
    by (auto simp: py_in_iff)
  then have "lower s = lower pre @ needle @ lower post"
    using assms(2) by (simp add: lower_def)
  then show ?thesis
    unfolding py_in_iff by blast
qed

text \<open>For evaluating \<open>lower\<close> on literals with the simplifier.\<close>

lemma char_of_nat_bits:
  "char_of (n::nat) = Char (odd n) (odd (n div 2)) (odd (n div 4)) (odd (n div 8))
     (odd (n div 16)) (odd (n div 32)) (odd (n div 64)) (odd (n div 128))"
  by (simp add: char_of_def bit_iff_odd)

lemmas lower_eval = lower_def lower_char_def char_of_nat_bits

text \<open>
  Claim C9 says that every terminal failure whose message contains \<open>unauthorized\<close>
  shows the authentication branch. This one contains \<open>unauthorized\<close> and \<open>not found\<close>,
  and the page shows the branch for no compatible models.
\<close>

theorem unauthorized_branch_counterexample:
  "py_in ''unauthorized''
     (lower ''Failed to analyze: gemini-2.5-pro is not found; caller is unauthorized'')
   \<and> results_section (failing (\<lambda>m. m @ '' is not found; caller is unauthorized''))
       \<lparr>GOOGLE_API_KEY = Some ''key'', GEMINI_MODEL = ''gemini-2.5-pro'',
        AVAILABLE_MODELS = [''gemini-2.5-pro'']\<rparr> True (Some ()) None ()
     = ([st_error '' Analysis failed: Failed to analyze: gemini-2.5-pro is not found; caller is unauthorized'',
         st_markdown ''#### Troubleshooting:'',
         canned NoCompatibleModels,
         st_info '' gemini-2.5-pro''],
        ())"
proof -
  let ?msg = "''Failed to analyze: gemini-2.5-pro is not found; caller is unauthorized''"
  have low: "lower ?msg
      = ''failed to analyze: gemini-2.5-pro is not found; caller is unauthorized''"
    by (simp add: lower_eval)
  have u: "py_in ''unauthorized'' (lower ?msg)"
    unfolding low by simp
  have "py_in ''not found'' (lower ?msg)"
    unfolding low by simp
  then have cls: "classify ?msg = NoCompatibleModels"
    by (simp add: classify_def)
  have run: "get_gemini_analysis
      (failing (\<lambda>m. m @ '' is not found; caller is unauthorized''))
      [''gemini-2.5-pro''] [] () () = (Inl ?msg, ())"
    by (simp add: get_gemini_analysis_def models_to_try_def failing_def str_error_def)
  have "results_section (failing (\<lambda>m. m @ '' is not found; caller is unauthorized''))
       \<lparr>GOOGLE_API_KEY = Some ''key'', GEMINI_MODEL = ''gemini-2.5-pro'',
        AVAILABLE_MODELS = [''gemini-2.5-pro'']\<rparr> True (Some ()) None ()
     = ([st_error ('' Analysis failed: '' @ ?msg), st_markdown ''#### Troubleshooting:'']
        @ troubleshooting [''gemini-2.5-pro''] ?msg, ())"
    by (simp add: results_section_def truthy_def or_empty_def run)
  with u cls show ?thesis
    by (simp add: troubleshooting_def)
qed

text \<open>
  Claim C9, amended. The branch is chosen by substring tests on the lower-cased message,
  in a fixed order: \<open>not found\<close> or \<open>not supported\<close> gives the branch for no
  compatible models; otherwise \<open>401\<close>, \<open>permission\<close>, \<open>unauthorized\<close> or
  \<open>invalid\<close> gives the authentication branch; otherwise \<open>rate limit\<close> gives the
  rate-limit branch; otherwise the generic branch with the error details. Messages that
  differ in case only get the same branch, and the branch's text is shown first.
\<close>

theorem classify_by_precedence:
  "(classify error_str = NoCompatibleModels \<longleftrightarrow>
      py_in ''not found'' (lower error_str) \<or> py_in ''not supported'' (lower error_str))
   \<and> (classify error_str = AuthenticationError \<longleftrightarrow>
      \<not> (py_in ''not found'' (lower error_str) \<or> py_in ''not supported'' (lower error_str))
      \<and> (py_in ''401'' (lower error_str) \<or> py_in ''permission'' (lower error_str)
         \<or> py_in ''unauthorized'' (lower error_str) \<or> py_in ''invalid'' (lower error_str)))
   \<and> (classify error_str = RateLimitExceeded \<longleftrightarrow>
      \<not> (py_in ''not found'' (lower error_str) \<or> py_in ''not supported'' (lower error_str))
      \<and> \<not> (py_in ''401'' (lower error_str) \<or> py_in ''permission'' (lower error_str)
         \<or> py_in ''unauthorized'' (lower error_str) \<or> py_in ''invalid'' (lower error_str))
      \<and> py_in ''rate limit'' (lower error_str))
   \<and> (classify error_str = ErrorDetails \<longleftrightarrow>
      \<not> (py_in ''not found'' (lower error_str) \<or> py_in ''not supported'' (lower error_str))
      \<and> \<not> (py_in ''401'' (lower error_str) \<or> py_in ''permission'' (lower error_str)
         \<or> py_in ''unauthorized'' (lower error_str) \<or> py_in ''invalid'' (lower error_str))
      \<and> \<not> py_in ''rate limit'' (lower error_str))
   \<and> (py_in needle (lower error_str) \<longleftrightarrow> (\<exists>pre post. lower error_str = pre @ needle @ post))
   \<and> (lower error_str = lower other \<longrightarrow> classify error_str = classify other)
   \<and> hd (troubleshooting available error_str) =
       (if classify error_str = ErrorDetails then error_details error_str
        else canned (classify error_str))"
proof -
  have "hd (troubleshooting available error_str) =
       (if classify error_str = ErrorDetails then error_details error_str
        else canned (classify error_str))"
    by (cases "classify error_str") (simp_all add: troubleshooting_def)
  moreover have "lower error_str = lower other \<longrightarrow> classify error_str = classify other"
    by (simp add: classify_def)
  moreover have "py_in needle (lower error_str)
      \<longleftrightarrow> (\<exists>pre post. lower error_str = pre @ needle @ post)"
    by (rule py_in_iff)
  ultimately show ?thesis
    by (simp add: classify_def Let_def)
qed

text \<open>Four terminal messages: the last contains \<open>rate limit\<close> and \<open>invalid\<close>.\<close>

theorem classify_by_precedence_witness:
  "classify ''Failed to analyze: 401 Unauthorized'' = AuthenticationError
   \<and> classify ''Failed to analyze: Rate Limit exceeded'' = RateLimitExceeded
   \<and> classify ''Failed to analyze: timed out'' = ErrorDetails
   \<and> classify ''Failed to analyze: rate limit hit, invalid request'' = AuthenticationError"
proof -
  have l1: "lower ''Failed to analyze: 401 Unauthorized'' = ''failed to analyze: 401 unauthorized''"
    and l2: "lower ''Failed to analyze: Rate Limit exceeded''
      = ''failed to analyze: rate limit exceeded''"
    and l3: "lower ''Failed to analyze: timed out'' = ''failed to analyze: timed out''"
    and l4: "lower ''Failed to analyze: rate limit hit, invalid request''
      = ''failed to analyze: rate limit hit, invalid request''"
    by (simp_all add: lower_eval)
  have "classify ''Failed to analyze: 401 Unauthorized'' = AuthenticationError"
    using classify_by_precedence [of "''Failed to analyze: 401 Unauthorized''" "[]" "[]" "[]",
        THEN conjunct2, THEN conjunct1]
    unfolding l1 by simp
  moreover have "classify ''Failed to analyze: Rate Limit exceeded'' = RateLimitExceeded"
    using classify_by_precedence [of "''Failed to analyze: Rate Limit exceeded''" "[]" "[]" "[]",
        THEN conjunct2, THEN conjunct2, THEN conjunct1]
    unfolding l2 by simp
  moreover have "classify ''Failed to analyze: timed out'' = ErrorDetails"
    using classify_by_precedence [of "''Failed to analyze: timed out''" "[]" "[]" "[]",
        THEN conjunct2, THEN conjunct2, THEN conjunct2, THEN conjunct1]
    unfolding l3 by simp
  moreover have "classify ''Failed to analyze: rate limit hit, invalid request''
      = AuthenticationError"
    using classify_by_precedence [of "''Failed to analyze: rate limit hit, invalid request''"
        "[]" "[]" "[]", THEN conjunct2, THEN conjunct1]
    unfolding l4 by simp
  ultimately show ?thesis
    by simp
qed

text \<open>
  Claim C10. The test for \<open>not found\<close> and \<open>not supported\<close> comes first: a message
  that contains one of them, in any case, shows the branch for no compatible models and
  not the authentication branch, also when it contains \<open>unauthorized\<close>.
\<close>

theorem not_found_takes_precedence:
  assumes "py_in ''not found'' (lower error_str) \<or> py_in ''not supported'' (lower error_str)
    \<or> py_in ''not found'' error_str \<or> py_in ''not supported'' error_str"
  shows "classify error_str = NoCompatibleModels
    \<and> troubleshooting available error_str =
        canned NoCompatibleModels
        # (if available \<noteq> [] then map (\<lambda>m. st_info ('' '' @ m)) available
           else [st_warning ''Could not detect any compatible models with your API key''])
    \<and> canned AuthenticationError \<notin> set (troubleshooting available error_str)"
proof -
  have "lower ''not found'' = ''not found''" and "lower ''not supported'' = ''not supported''"
    by (simp_all add: lower_eval)
  with assms have "py_in ''not found'' (lower error_str) \<or> py_in ''not supported'' (lower error_str)"
    by (blast intro: py_in_lower)
  then have c: "classify error_str = NoCompatibleModels"
    by (simp add: classify_def)
  then show ?thesis
    by (auto simp: troubleshooting_def)
qed

text \<open>A message with \<open>Not Found\<close> and \<open>UNAUTHORIZED\<close>.\<close>

theorem not_found_takes_precedence_witness:
  "py_in ''unauthorized'' (lower ''Failed to analyze: 404 Model Not Found (UNAUTHORIZED)'')
   \<and> classify ''Failed to analyze: 404 Model Not Found (UNAUTHORIZED)'' = NoCompatibleModels
   \<and> troubleshooting [] ''Failed to analyze: 404 Model Not Found (UNAUTHORIZED)'' =
       [canned NoCompatibleModels,
        st_warning ''Could not detect any compatible models with your API key'']"
proof -
  have h: "py_in ''not found'' (lower ''Failed to analyze: 404 Model Not Found (UNAUTHORIZED)'')"
    by (simp add: lower_eval)
  have u: "py_in ''unauthorized'' (lower ''Failed to analyze: 404 Model Not Found (UNAUTHORIZED)'')"
    by (simp add: lower_eval)
  from h have "py_in ''not found'' (lower ''Failed to analyze: 404 Model Not Found (UNAUTHORIZED)'')
    \<or> py_in ''not supported'' (lower ''Failed to analyze: 404 Model Not Found (UNAUTHORIZED)'')
    \<or> py_in ''not found'' ''Failed to analyze: 404 Model Not Found (UNAUTHORIZED)''
    \<or> py_in ''not supported'' ''Failed to analyze: 404 Model Not Found (UNAUTHORIZED)''"
    by (rule disjI1)
  from not_found_takes_precedence [OF this, of "[]"] u show ?thesis
    by simp
qed

end
